theory Spec2Isabelle
  imports Main "HOL-Library.Multiset"
begin

section \<open>JavaScript values\<close>

text \<open>
  The notes client handles values that come out of \<^verbatim>\<open>res.json()\<close> and \<^verbatim>\<open>res.text()\<close>.
  A value is one of the JavaScript kinds below.  An object is the list of its own
  properties (a read takes the first entry of a key); \<open>JUndefined\<close> is what a read of
  a missing property gives.  The client never computes with a number of a payload: it
  prints it with \<^verbatim>\<open>String\<close> and tests whether it is truthy.  So a number is kept as
  these two observations: \<open>JNum t z\<close> is a number that \<^verbatim>\<open>String\<close> prints as \<open>t\<close>, and \<open>z\<close>
  holds for the falsy numbers \<^verbatim>\<open>0\<close>, \<^verbatim>\<open>-0\<close> and \<^verbatim>\<open>NaN\<close>; \<^verbatim>\<open>12\<close> is \<open>JNum ''12'' False\<close> and
  \<^verbatim>\<open>1.5\<close> is \<open>JNum ''1.5'' False\<close>.  A \<open>string\<close> is a sequence of code units below 256,
  so \<open>length\<close> is what \<^verbatim>\<open>.length\<close> counts for such strings.
\<close>

datatype jsval =
    JUndefined
  | JNull
  | JBool bool
  | JNum string bool
  | JStr string
  | JArr "jsval list"
  | JObj "(string \<times> jsval) list"

text \<open>What the source throws and catches: an \<^verbatim>\<open>Error\<close> with its message, or any other value.\<close>

datatype thrown = JsError string | NotAnError

definition digit :: "nat \<Rightarrow> char" where
  "digit d = ''0123456789'' ! d"

function show_nat :: "nat \<Rightarrow> string" where
  "show_nat n = (if n < 10 then [digit n] else show_nat (n div 10) @ [digit (n mod 10)])"
  by pat_completeness auto
termination
  by (relation "measure (\<lambda>n. n)") auto

declare show_nat.simps [simp del]

text \<open>
  \<^verbatim>\<open>String(v)\<close>.  An array prints its elements separated by commas, with \<^verbatim>\<open>null\<close> and
  \<^verbatim>\<open>undefined\<close> elements printed as nothing; a plain object prints as
  \<^verbatim>\<open>[object Object]\<close>.
\<close>

fun js_String :: "jsval \<Rightarrow> string"
  and js_join :: "jsval list \<Rightarrow> string"
  and js_element :: "jsval \<Rightarrow> string" where
  "js_String JUndefined = ''undefined''"
| "js_String JNull = ''null''"
| "js_String (JBool b) = (if b then ''true'' else ''false'')"
| "js_String (JNum t z) = t"
| "js_String (JStr s) = s"
| "js_String (JArr xs) = js_join xs"
| "js_String (JObj kvs) = ''[object Object]''"
| "js_join [] = ''''"
| "js_join [x] = js_element x"
| "js_join (x # y # ys) = js_element x @ '','' @ js_join (y # ys)"
| "js_element JUndefined = ''''"
| "js_element JNull = ''''"
| "js_element (JBool b) = js_String (JBool b)"
| "js_element (JNum t z) = js_String (JNum t z)"
| "js_element (JStr s) = js_String (JStr s)"
| "js_element (JArr xs) = js_String (JArr xs)"
| "js_element (JObj kvs) = js_String (JObj kvs)"

text \<open>Truthiness, as \<^verbatim>\<open>!v\<close>, \<^verbatim>\<open>v ? a : b\<close>, \<^verbatim>\<open>&&\<close> and \<^verbatim>\<open>||\<close> read it.\<close>

fun truthy :: "jsval \<Rightarrow> bool" where
  "truthy JUndefined = False"
| "truthy JNull = False"
| "truthy (JBool b) = b"
| "truthy (JNum t z) = (\<not> z)"
| "truthy (JStr s) = (s \<noteq> '''')"
| "truthy (JArr xs) = True"
| "truthy (JObj kvs) = True"

text \<open>\<^verbatim>\<open>a ?? b\<close>, \<^verbatim>\<open>a || b\<close> and \<^verbatim>\<open>a && b\<close>.\<close>

fun coalesce :: "jsval \<Rightarrow> jsval \<Rightarrow> jsval" where
  "coalesce JUndefined b = b"
| "coalesce JNull b = b"
| "coalesce a b = a"

definition js_or :: "jsval \<Rightarrow> jsval \<Rightarrow> jsval" where
  "js_or a b = (if truthy a then a else b)"

definition js_and :: "jsval \<Rightarrow> jsval \<Rightarrow> jsval" where
  "js_and a b = (if truthy a then b else a)"

text \<open>
  \<^verbatim>\<open>v.k\<close> for the keys the client reads (none of them is a property of a string, a
  number, an array or of \<^verbatim>\<open>Object.prototype\<close>).  The source reads a property of
  \<^verbatim>\<open>null\<close> or \<^verbatim>\<open>undefined\<close> only behind a guard or with \<^verbatim>\<open>?.\<close>, where the result is
  \<^verbatim>\<open>undefined\<close>.
\<close>

fun js_get :: "jsval \<Rightarrow> string \<Rightarrow> jsval" where
  "js_get (JObj kvs) k = (case map_of kvs k of None \<Rightarrow> JUndefined | Some v \<Rightarrow> v)"
| "js_get v k = JUndefined"

text \<open>\<^verbatim>\<open>k in v\<close> for an object or an array \<open>v\<close> and a key that is no array index.\<close>

fun has_key :: "string \<Rightarrow> jsval \<Rightarrow> bool" where
  "has_key k (JObj kvs) = (map_of kvs k \<noteq> None)"
| "has_key k v = False"

text \<open>\<^verbatim>\<open>typeof v === "object"\<close> and \<^verbatim>\<open>Array.isArray(v)\<close>.\<close>

fun typeof_object :: "jsval \<Rightarrow> bool" where
  "typeof_object JNull = True"
| "typeof_object (JArr xs) = True"
| "typeof_object (JObj kvs) = True"
| "typeof_object v = False"



text \<open>
  \<^verbatim>\<open>s.trim()\<close> removes white space and line terminators from both ends: among the
  code units below 256 these are TAB, LF, VT, FF, CR, SP and NBSP.
\<close>

definition js_space :: "char \<Rightarrow> bool" where
  "js_space c = (c \<in> set [CHR 0x09, CHR 0x0A, CHR 0x0B, CHR 0x0C, CHR 0x0D, CHR 0x20, CHR 0xA0])"

definition trim :: "string \<Rightarrow> string" where
  "trim s = rev (dropWhile js_space (rev (dropWhile js_space s)))"

text \<open>\<^verbatim>\<open>s.includes(t)\<close>.\<close>

fun starts_with :: "string \<Rightarrow> string \<Rightarrow> bool" where
  "starts_with s [] = True"
| "starts_with [] (d # ds) = False"
| "starts_with (c # cs) (d # ds) = (c = d \<and> starts_with cs ds)"

fun str_includes :: "string \<Rightarrow> string \<Rightarrow> bool" where
  "str_includes [] t = (t = [])"
| "str_includes (c # cs) t = (starts_with (c # cs) t \<or> str_includes cs t)"

section \<open>Notes client adapter\<close>

subsection \<open>Canonical notes\<close>

text \<open>
  The \<^verbatim>\<open>Note\<close> typedef of the source: \<^verbatim>\<open>{id, title, content, updatedAt?, createdAt?}\<close>,
  all strings; an optional field is \<open>None\<close> when the object has no such key.
\<close>

record Note =
  note_id :: string
  title :: string
  content :: string
  updatedAt :: "string option"
  createdAt :: "string option"

text \<open>\<^verbatim>\<open>unwrapData\<close>: the value under \<^verbatim>\<open>data\<close> when the payload is an object with that key.\<close>

definition unwrapData :: "jsval \<Rightarrow> jsval" where
  "unwrapData payload =
     (if truthy payload \<and> typeof_object payload \<and> has_key ''data'' payload
      then js_get payload ''data'' else payload)"

text \<open>\<^verbatim>\<open>toUiNote\<close>.\<close>

definition toUiNote :: "jsval \<Rightarrow> Note" where
  "toUiNote raw =
     (if \<not> truthy raw \<or> \<not> typeof_object raw then
        \<lparr>note_id = '''', title = '''', content = '''', updatedAt = None, createdAt = None\<rparr>
      else
        let id = js_String (coalesce (coalesce (coalesce (js_get raw ''id'') (js_get raw ''_id''))
                    (js_get raw ''noteId'')) (JStr ''''));
            title = trim (js_String (coalesce (coalesce (js_get raw ''title'') (js_get raw ''name''))
                    (JStr '''')));
            content = js_String (coalesce (coalesce (coalesce (js_get raw ''content'')
                    (js_get raw ''body'')) (js_get raw ''text'')) (JStr ''''));
            updatedAt = coalesce (coalesce (coalesce (js_get raw ''updatedAt'')
                    (js_get raw ''updated_at'')) (js_get raw ''modifiedAt'')) (js_get raw ''modified_at'');
            createdAt = coalesce (js_get raw ''createdAt'') (js_get raw ''created_at'')
        in \<lparr>note_id = id, title = title, content = content,
            updatedAt = (if truthy updatedAt then Some (js_String updatedAt) else None),
            createdAt = (if truthy createdAt then Some (js_String createdAt) else None)\<rparr>)"

text \<open>A note as the JavaScript object it is, for passing it to \<open>toUiNote\<close> again.\<close>

definition note_object :: "Note \<Rightarrow> jsval" where
  "note_object n =
     JObj ([(''id'', JStr (note_id n)), (''title'', JStr (title n)), (''content'', JStr (content n))]
           @ (case updatedAt n of None \<Rightarrow> [] | Some u \<Rightarrow> [(''updatedAt'', JStr u)])
           @ (case createdAt n of None \<Rightarrow> [] | Some c \<Rightarrow> [(''createdAt'', JStr c)]))"

subsection \<open>Requests\<close>

text \<open>
  What \<^verbatim>\<open>fetch\<close> resolved to: the numeric status, the \<^verbatim>\<open>content-type\<close> header (\<open>None\<close>
  when the response has none), what \<^verbatim>\<open>res.json()\<close> gives (a parse error is thrown) and
  what \<^verbatim>\<open>res.text()\<close> gives.  \<^verbatim>\<open>res.ok\<close> is a status from 200 to 299.
\<close>

record response =
  res_status :: nat
  content_type :: "string option"
  res_json :: "thrown + jsval"
  res_text :: string

definition res_ok :: "response \<Rightarrow> bool" where
  "res_ok res = (200 \<le> res_status res \<and> res_status res \<le> 299)"

text \<open>\<^verbatim>\<open>API_BASE\<close>, from the two environment variables (\<open>None\<close> when unset).\<close>

definition API_BASE :: "string option \<Rightarrow> string option \<Rightarrow> string" where
  "API_BASE api_base backend_url =
     (case api_base of
        Some b \<Rightarrow> if b \<noteq> '''' then b else (case backend_url of Some u \<Rightarrow> u | None \<Rightarrow> '''')
      | None \<Rightarrow> (case backend_url of Some u \<Rightarrow> u | None \<Rightarrow> ''''))"

text \<open>\<^verbatim>\<open>parseJsonOrText\<close>.\<close>

definition parseJsonOrText :: "response \<Rightarrow> thrown + jsval" where
  "parseJsonOrText res =
     (let contentType = (case content_type res of None \<Rightarrow> '''' | Some c \<Rightarrow> c)
      in if str_includes contentType ''application/json'' then res_json res
         else Inr (JStr (res_text res)))"

text \<open>
  \<^verbatim>\<open>request\<close>, as a function of the configured base and of what \<^verbatim>\<open>fetch\<close> did (it may
  throw).  The URL and the options only decide what is sent; they are not part of the
  result.  \<^verbatim>\<open>new Error(message)\<close> stores \<^verbatim>\<open>String(message)\<close>.
\<close>

definition failure_message :: "jsval \<Rightarrow> nat \<Rightarrow> string" where
  "failure_message payload st =
     (case payload of
        JStr s \<Rightarrow> s
      | _ \<Rightarrow> js_String (js_or (js_and payload (js_or (js_get payload ''message'') (js_get payload ''error'')))
                 (JStr (''Request failed ('' @ show_nat st @ '')''))))"

definition request :: "string \<Rightarrow> thrown + response \<Rightarrow> thrown + jsval" where
  "request base fetched =
     (if base = '''' then
        Inl (JsError ''Backend base URL is not configured. Set REACT_APP_API_BASE or REACT_APP_BACKEND_URL.'')
      else
        case fetched of
          Inl e \<Rightarrow> Inl e
        | Inr res \<Rightarrow>
            (case parseJsonOrText res of
               Inl e \<Rightarrow> Inl e
             | Inr payload \<Rightarrow>
                 if \<not> res_ok res then Inl (JsError (failure_message payload (res_status res)))
                 else Inr payload))"



definition createNote :: "string \<Rightarrow> thrown + response \<Rightarrow> thrown + Note" where
  "createNote base fetched =
     (case request base fetched of
        Inl e \<Rightarrow> Inl e
      | Inr payload \<Rightarrow> Inr (toUiNote (unwrapData payload)))"

definition updateNote :: "string \<Rightarrow> thrown + response \<Rightarrow> thrown + Note" where
  "updateNote base fetched =
     (case request base fetched of
        Inl e \<Rightarrow> Inl e
      | Inr payload \<Rightarrow> Inr (toUiNote (unwrapData payload)))"

definition deleteNote :: "string \<Rightarrow> thrown + response \<Rightarrow> thrown + unit" where
  "deleteNote base fetched =
     (case request base fetched of
        Inl e \<Rightarrow> Inl e
      | Inr payload \<Rightarrow> Inr ())"

section \<open>UI state orchestrator\<close>

subsection \<open>State\<close>

datatype Mode = View | Edit | Create

record Draft =
  draft_title :: string
  draft_content :: string

definition EMPTY_DRAFT :: Draft where
  "EMPTY_DRAFT = \<lparr>draft_title = '''', draft_content = ''''\<rparr>"

text \<open>The \<^verbatim>\<open>useState\<close> cells of \<^verbatim>\<open>App\<close>.\<close>

record ui_state =
  "notes" :: "Note list"
  selectedId :: "string option"
  mode :: Mode
  draft :: Draft
  touched :: bool
  isBusy :: bool
  error :: string
  status :: string

definition initial :: ui_state where
  "initial = \<lparr>notes = [], selectedId = None, mode = View, draft = EMPTY_DRAFT,
     touched = False, isBusy = False, error = '''', status = ''''\<rparr>"

subsection \<open>Sorting\<close>

text \<open>
  \<^verbatim>\<open>sortNotes\<close>.  \<^verbatim>\<open>Date.parse\<close> is a parameter: \<open>parse s\<close> is the time value in
  milliseconds since the epoch (negative before 1970), or \<open>None\<close> for \<^verbatim>\<open>NaN\<close>.
  \<^verbatim>\<open>n.updatedAt || n.createdAt\<close> takes \<^verbatim>\<open>createdAt\<close> when \<^verbatim>\<open>updatedAt\<close> is missing or empty.
\<close>

definition activity :: "Note \<Rightarrow> string option" where
  "activity n =
     (case updatedAt n of
        Some u \<Rightarrow> if u \<noteq> '''' then Some u else createdAt n
      | None \<Rightarrow> createdAt n)"

definition toTs :: "(string \<Rightarrow> int option) \<Rightarrow> Note \<Rightarrow> int" where
  "toTs parse n =
     (case activity n of
        None \<Rightarrow> 0
      | Some v \<Rightarrow> if v = '''' then 0 else (case parse v of None \<Rightarrow> 0 | Some ts \<Rightarrow> ts))"

text \<open>
  \<^verbatim>\<open>[...notes].sort((a, b) => toTs(b) - toTs(a))\<close>: \<^verbatim>\<open>Array.prototype.sort\<close> is stable and
  the comparator is a consistent order, so the result is the stable sort by descending
  \<open>toTs\<close>, which \<open>sort_key\<close> computes.
\<close>

definition sortNotes :: "(string \<Rightarrow> int option) \<Rightarrow> Note list \<Rightarrow> Note list" where
  "sortNotes parse ns = sort_key (\<lambda>n. - toTs parse n) ns"

subsection \<open>Derived values\<close>

text \<open>The \<^verbatim>\<open>useMemo\<close> values \<^verbatim>\<open>selectedNote\<close> and \<^verbatim>\<open>titleError\<close>, and \<^verbatim>\<open>canSave\<close>.\<close>

definition selectedNote :: "ui_state \<Rightarrow> Note option" where
  "selectedNote s =
     (case selectedId s of
        None \<Rightarrow> None
      | Some i \<Rightarrow> if i = '''' then None else find (\<lambda>n. note_id n = i) (notes s))"

definition titleError :: "ui_state \<Rightarrow> string" where
  "titleError s =
     (if \<not> touched s then ''''
      else if trim (draft_title (draft s)) = '''' then ''Title is required.''
      else if length (trim (draft_title (draft s))) > 80 then ''Title must be 80 characters or less.''
      else '''')"

definition canSave :: "ui_state \<Rightarrow> bool" where
  "canSave s = (titleError s = '''' \<and> trim (draft_title (draft s)) \<noteq> '''' \<and> \<not> isBusy s)"

subsection \<open>Handlers\<close>

text \<open>
  A handler is a closure over the state of the render that created it.  Running it
  gives, in order, the state setters it calls, the adapter call it awaits and the
  prompt it shows; the setters act on the state current when they run.  The result of
  the awaited adapter call (\<open>Inl\<close> what it threw) is a parameter of the handler.
\<close>

datatype call =
    CallList
  | CallCreate string string
  | CallUpdate string string string
  | CallDelete string

datatype effect =
    SetNotes "Note list"
  | SetSelectedId "string option"
  | SetMode Mode
  | SetDraft Draft
  | SetTouched bool
  | SetIsBusy bool
  | SetError string
  | SetStatus string
  | Await call
  | Confirm string

fun apply_effect :: "effect \<Rightarrow> ui_state \<Rightarrow> ui_state" where
  "apply_effect (SetNotes ns) s = s\<lparr>notes := ns\<rparr>"
| "apply_effect (SetSelectedId i) s = s\<lparr>selectedId := i\<rparr>"
| "apply_effect (SetMode m) s = s\<lparr>mode := m\<rparr>"
| "apply_effect (SetDraft d) s = s\<lparr>draft := d\<rparr>"
| "apply_effect (SetTouched b) s = s\<lparr>touched := b\<rparr>"
| "apply_effect (SetIsBusy b) s = s\<lparr>isBusy := b\<rparr>"
| "apply_effect (SetError e) s = s\<lparr>error := e\<rparr>"
| "apply_effect (SetStatus m) s = s\<lparr>status := m\<rparr>"
| "apply_effect (Await c) s = s"
| "apply_effect (Confirm m) s = s"

fun exec :: "effect list \<Rightarrow> ui_state \<Rightarrow> ui_state" where
  "exec [] s = s"
| "exec (e # es) s = exec es (apply_effect e s)"

fun calls :: "effect list \<Rightarrow> call list" where
  "calls [] = []"
| "calls (Await c # es) = c # calls es"
| "calls (e # es) = calls es"

text \<open>\<^verbatim>\<open>e instanceof Error ? e.message : fallback\<close>.\<close>

fun caught :: "thrown \<Rightarrow> string \<Rightarrow> string" where
  "caught (JsError m) fallback = m"
| "caught NotAnError fallback = fallback"

text \<open>\<^verbatim>\<open>showStatus\<close> sets the status; its timer is the event \<open>StatusTimeout\<close> below.\<close>

definition showStatus :: "string \<Rightarrow> effect list" where
  "showStatus msg = [SetStatus msg]"

definition note_draft :: "Note \<Rightarrow> Draft" where
  "note_draft n = \<lparr>draft_title = title n, draft_content = content n\<rparr>"

definition load :: "(string \<Rightarrow> int option) \<Rightarrow> thrown + Note list \<Rightarrow> effect list" where
  "load parse listed =
     [SetIsBusy True, SetError '''', SetStatus ''Loading notes...'', Await CallList]
     @ (case listed of
          Inr items \<Rightarrow>
            (let sorted = sortNotes parse items
             in [SetNotes sorted]
                @ (case sorted of [] \<Rightarrow> [] | n # rest \<Rightarrow> [SetSelectedId (Some (note_id n))])
                @ [SetStatus ''''])
        | Inl e \<Rightarrow> [SetError (caught e ''Failed to load notes.''), SetStatus ''''])
     @ [SetIsBusy False]"

definition handleCreate :: "ui_state \<Rightarrow> effect list" where
  "handleCreate s = [SetError '''', SetMode Create, SetDraft EMPTY_DRAFT, SetTouched False]"

definition handleSelect :: "string \<Rightarrow> ui_state \<Rightarrow> effect list" where
  "handleSelect i s = [SetError '''', SetSelectedId (Some i), SetMode View, SetTouched False]"

definition handleStartEdit :: "ui_state \<Rightarrow> effect list" where
  "handleStartEdit s =
     (case selectedNote s of
        None \<Rightarrow> []
      | Some n \<Rightarrow> [SetError '''', SetMode Edit, SetDraft (note_draft n), SetTouched False])"

definition handleCancel :: "ui_state \<Rightarrow> effect list" where
  "handleCancel s =
     [SetError '''', SetMode View,
      SetDraft (case selectedNote s of Some n \<Rightarrow> note_draft n | None \<Rightarrow> EMPTY_DRAFT),
      SetTouched False]"

definition handleSave :: "(string \<Rightarrow> int option) \<Rightarrow> thrown + Note \<Rightarrow> ui_state \<Rightarrow> effect list" where
  "handleSave parse answered s =
     [SetError '''', SetTouched True]
     @ (let title = trim (draft_title (draft s)) in
        if title = '''' then []
        else
          [SetIsBusy True]
          @ (if mode s = Create then
               Await (CallCreate title (draft_content (draft s)))
               # (case answered of
                    Inr created \<Rightarrow>
                      [SetNotes (sortNotes parse (created # notes s)),
                       SetSelectedId (Some (note_id created)), SetMode View]
                      @ showStatus ''Saved.''
                  | Inl e \<Rightarrow> [SetError (caught e ''Save failed.'')])
             else
               (case (mode s, selectedNote s) of
                  (Edit, Some sel) \<Rightarrow>
                    Await (CallUpdate (note_id sel) title (draft_content (draft s)))
                    # (case answered of
                         Inr updated \<Rightarrow>
                           [SetNotes (sortNotes parse
                              (map (\<lambda>n. if note_id n = note_id updated then updated else n) (notes s))),
                            SetMode View]
                           @ showStatus ''Updated.''
                       | Inl e \<Rightarrow> [SetError (caught e ''Save failed.'')])
                | _ \<Rightarrow> []))
          @ [SetIsBusy False])"

definition handleDelete ::
  "(string \<Rightarrow> int option) \<Rightarrow> thrown + unit \<Rightarrow> bool \<Rightarrow> string \<Rightarrow> ui_state \<Rightarrow> effect list" where
  "handleDelete parse answered ok i s =
     (let title = (case find (\<lambda>n. note_id n = i) (notes s) of
                     Some n \<Rightarrow> if title n \<noteq> '''' then title n else ''Untitled''
                   | None \<Rightarrow> ''Untitled'')
      in [SetError '''', Confirm (''Delete '' @ [CHR 0x22] @ title @ [CHR 0x22] @ ''? This cannot be undone.'')]
         @ (if \<not> ok then []
            else
              [SetIsBusy True, Await (CallDelete i)]
              @ (case answered of
                   Inr u \<Rightarrow>
                     (let remaining = filter (\<lambda>n. note_id n \<noteq> i) (notes s)
                      in [SetNotes (sortNotes parse remaining)]
                         @ (if selectedId s = Some i then
                              (case remaining of
                                 [] \<Rightarrow> [SetSelectedId None, SetMode View, SetDraft EMPTY_DRAFT]
                               | n # rest \<Rightarrow>
                                   [SetSelectedId (Some (note_id n)), SetMode View,
                                    SetDraft (if note_id n \<noteq> '''' then note_draft n else EMPTY_DRAFT)])
                            else [])
                         @ showStatus ''Deleted.'')
                 | Inl e \<Rightarrow> [SetError (caught e ''Delete failed.'')])
              @ [SetIsBusy False]))"

text \<open>The text of the prompt that \<open>handleDelete\<close> shows for the id \<open>i\<close>.\<close>

definition confirm_text :: "string \<Rightarrow> ui_state \<Rightarrow> string" where
  "confirm_text i s =
     ''Delete '' @ [CHR 0x22]
     @ (case find (\<lambda>n. note_id n = i) (notes s) of
          Some n \<Rightarrow> if title n \<noteq> '''' then title n else ''Untitled''
        | None \<Rightarrow> ''Untitled'')
     @ [CHR 0x22] @ ''? This cannot be undone.''"

text \<open>The form: \<^verbatim>\<open>onSubmit\<close>, the two \<^verbatim>\<open>onChange\<close> handlers and \<^verbatim>\<open>onBlur\<close> of the title.\<close>

definition handleSubmit :: "(string \<Rightarrow> int option) \<Rightarrow> thrown + Note \<Rightarrow> ui_state \<Rightarrow> effect list" where
  "handleSubmit parse answered s =
     (if canSave s then handleSave parse answered s else [SetTouched True])"

definition changeTitle :: "string \<Rightarrow> ui_state \<Rightarrow> effect list" where
  "changeTitle v s = [SetDraft ((draft s)\<lparr>draft_title := v\<rparr>)]"

definition changeContent :: "string \<Rightarrow> ui_state \<Rightarrow> effect list" where
  "changeContent v s = [SetDraft ((draft s)\<lparr>draft_content := v\<rparr>)]"

definition blurTitle :: "ui_state \<Rightarrow> effect list" where
  "blurTitle s = [SetTouched True]"

text \<open>
  The \<^verbatim>\<open>useEffect\<close> on \<^verbatim>\<open>[mode, selectedNote?.id]\<close>: after a render in which one of the
  two changed, in view mode with a selected note, the draft is reset from that note.
\<close>

definition syncDraft :: "ui_state \<Rightarrow> ui_state \<Rightarrow> ui_state" where
  "syncDraft prev s =
     (if mode s = mode prev
         \<and> map_option note_id (selectedNote s) = map_option note_id (selectedNote prev) then s
      else if mode s \<noteq> View then s
      else case selectedNote s of
             None \<Rightarrow> s
           | Some n \<Rightarrow> s\<lparr>draft := note_draft n, touched := False\<rparr>)"

subsection \<open>The running application\<close>

text \<open>
  Between the start of an adapter call and its answer the component stays live: only
  the setters before the \<^verbatim>\<open>await\<close> have run, and the rest of the handler waits with the
  values it closed over.  An application state is the committed \<open>ui_state\<close> and the
  setters still waiting.  The setters of one run of a handler commit together (one
  render), and \<open>syncDraft\<close> runs after that render.
\<close>

record app =
  ui :: ui_state
  pending :: "effect list"

fun before_await :: "effect list \<Rightarrow> effect list" where
  "before_await [] = []"
| "before_await (Await c # es) = []"
| "before_await (e # es) = e # before_await es"

fun after_await :: "effect list \<Rightarrow> effect list" where
  "after_await [] = []"
| "after_await (Await c # es) = es"
| "after_await (e # es) = after_await es"

definition dispatch :: "effect list \<Rightarrow> app \<Rightarrow> app" where
  "dispatch effs a =
     \<lparr>ui = syncDraft (ui a) (exec (before_await effs) (ui a)),
      pending = pending a @ after_await effs\<rparr>"

text \<open>Mounting renders the initial state and starts \<^verbatim>\<open>load\<close>.\<close>

definition mount :: "(string \<Rightarrow> int option) \<Rightarrow> thrown + Note list \<Rightarrow> app" where
  "mount parse listed = dispatch (load parse listed) \<lparr>ui = initial, pending = []\<rparr>"

text \<open>
  What can happen next: a click, a key stroke, the form's submission (Enter in the
  title field), the status timer, or the answer of the adapter call in flight
  (\<open>Settle\<close>).  An event that starts an adapter call carries the answer that call will
  get.  An event whose control is not rendered or is disabled changes nothing: the row
  buttons exist for the notes of the list, the form (with Cancel and Save) when the mode
  is not \<open>View\<close>, the Edit button in view mode with a selected note, and
  \<^verbatim>\<open>disabled={isBusy}\<close> guards New, Del, Edit and Cancel, \<^verbatim>\<open>disabled={!canSave}\<close> Save.
\<close>

datatype event =
    ClickNew
  | ClickRow string
  | ClickEdit
  | ClickCancel
  | ClickSave "thrown + Note"
  | SubmitForm "thrown + Note"
  | ClickDelete string bool "thrown + unit"
  | TypeTitle string
  | TypeContent string
  | BlurTitle
  | StatusTimeout
  | Settle

fun step :: "(string \<Rightarrow> int option) \<Rightarrow> event \<Rightarrow> app \<Rightarrow> app" where
  "step parse ClickNew a =
     (if \<not> isBusy (ui a) then dispatch (handleCreate (ui a)) a else a)"
| "step parse (ClickRow i) a =
     (if i \<in> set (map note_id (notes (ui a))) then dispatch (handleSelect i (ui a)) a else a)"
| "step parse ClickEdit a =
     (if mode (ui a) = View \<and> selectedNote (ui a) \<noteq> None \<and> \<not> isBusy (ui a)
      then dispatch (handleStartEdit (ui a)) a else a)"
| "step parse ClickCancel a =
     (if mode (ui a) \<noteq> View \<and> \<not> isBusy (ui a) then dispatch (handleCancel (ui a)) a else a)"
| "step parse (ClickSave answered) a =
     (if mode (ui a) \<noteq> View \<and> canSave (ui a)
      then dispatch (handleSave parse answered (ui a)) a else a)"
| "step parse (SubmitForm answered) a =
     (if mode (ui a) \<noteq> View then dispatch (handleSubmit parse answered (ui a)) a else a)"
| "step parse (ClickDelete i ok answered) a =
     (if i \<in> set (map note_id (notes (ui a))) \<and> \<not> isBusy (ui a)
      then dispatch (handleDelete parse answered ok i (ui a)) a else a)"
| "step parse (TypeTitle v) a =
     (if mode (ui a) \<noteq> View then dispatch (changeTitle v (ui a)) a else a)"
| "step parse (TypeContent v) a =
     (if mode (ui a) \<noteq> View then dispatch (changeContent v (ui a)) a else a)"
| "step parse BlurTitle a =
     (if mode (ui a) \<noteq> View then dispatch (blurTitle (ui a)) a else a)"
| "step parse StatusTimeout a = dispatch [SetStatus ''''] a"
| "step parse Settle a =
     \<lparr>ui = syncDraft (ui a) (exec (pending a) (ui a)), pending = []\<rparr>"

fun run :: "(string \<Rightarrow> int option) \<Rightarrow> event list \<Rightarrow> app \<Rightarrow> app" where
  "run parse [] a = a"
| "run parse (e # es) a = run parse es (step parse e a)"

text \<open>
  The server assigns unique ids: the notes of the list answer have distinct ids, and a
  created note has an id that no note of the collection has.
\<close>

fun fresh_answer :: "event \<Rightarrow> ui_state \<Rightarrow> bool" where
  "fresh_answer (ClickSave (Inr n)) s =
     (mode s = Create \<longrightarrow> note_id n \<notin> set (map note_id (notes s)))"
| "fresh_answer (SubmitForm (Inr n)) s =
     (mode s = Create \<longrightarrow> note_id n \<notin> set (map note_id (notes s)))"
| "fresh_answer e s = True"

fun fresh_answers :: "(string \<Rightarrow> int option) \<Rightarrow> event list \<Rightarrow> app \<Rightarrow> bool" where
  "fresh_answers parse [] a = True"
| "fresh_answers parse (e # es) a =
     (fresh_answer e (ui a) \<and> fresh_answers parse es (step parse e a))"

fun distinct_list :: "thrown + Note list \<Rightarrow> bool" where
  "distinct_list (Inr items) = distinct (map note_id items)"
| "distinct_list (Inl e) = True"

section \<open>Vocabulary of the specification\<close>

subsection \<open>Normalization\<close>






subsection \<open>Responses\<close>



subsection \<open>Example values\<close>

definition raw_example :: jsval where
  "raw_example = JObj [(''_id'', JNum ''12'' False), (''name'', JStr '' A ''), (''body'', JStr ''x ''),
     (''updated_at'', JStr ''2024-01-01'')]"


definition raw_array_timestamp :: jsval where
  "raw_array_timestamp = JObj [(''id'', JStr ''1''), (''updatedAt'', JArr [])]"



section \<open>Properties\<close>

subsection \<open>The draft effect\<close>

lemma syncDraft_same:
  assumes "mode s = mode prev" "selectedId s = selectedId prev" "notes s = notes prev"
  shows "syncDraft prev s = s"
proof -
  have "selectedNote s = selectedNote prev"
    using assms by (simp add: selectedNote_def split: option.splits)
  with assms show ?thesis by (simp add: syncDraft_def)
qed

subsection \<open>Declining the delete prompt\<close>

text \<open>
  Claim C10.  Whatever the id and whatever the answer to the confirmation prompt,
  \<open>handleDelete\<close> first sets the error text to the empty string and only then shows the
  prompt.  When the user declines, it awaits no adapter call and changes no state cell
  but the error text (collection, selection, mode, draft and busy flag stay as they
  were); the render that follows does not run the draft effect.
\<close>

theorem handleDelete_declined:
  "calls (handleDelete parse answered False i s) = []
   \<and> exec (handleDelete parse answered False i s) s = s\<lparr>error := ''''\<rparr>
   \<and> syncDraft s (exec (handleDelete parse answered False i s) s) = s\<lparr>error := ''''\<rparr>
   \<and> (\<exists>m rest. handleDelete parse answered ok i s = SetError '''' # Confirm m # rest)
   \<and> handleDelete parse answered False i s = [SetError '''', Confirm (confirm_text i s)]"
  by (simp add: handleDelete_def confirm_text_def Let_def syncDraft_same)

subsection \<open>Trimming\<close>

lemma dropWhile_self: "xs = [] \<or> \<not> P (hd xs) \<Longrightarrow> dropWhile P xs = xs"
  by (cases xs) auto

lemma last_dropWhile_nonempty: "dropWhile P ys \<noteq> [] \<Longrightarrow> last (dropWhile P ys) = last ys"
  by (induction ys) (auto split: if_splits)

lemma hd_dropWhile_not: "dropWhile P xs \<noteq> [] \<Longrightarrow> \<not> P (hd (dropWhile P xs))"
  by (simp add: hd_dropWhile)

lemma trim_idem: "trim (trim s) = trim s"
proof -
  define a where "a = dropWhile js_space s"
  define b where "b = dropWhile js_space (rev a)"
  have "rev b = [] \<or> \<not> js_space (hd (rev b))"
  proof (cases "b = []")
    case True
    then show ?thesis by simp
  next
    case False
    then have "last b = last (rev a)"
      unfolding b_def by (rule last_dropWhile_nonempty)
    moreover from False have "a \<noteq> []" unfolding b_def by auto
    ultimately have "last b = hd a" by (simp add: last_rev)
    moreover have "\<not> js_space (hd a)"
      using \<open>a \<noteq> []\<close> unfolding a_def by (rule hd_dropWhile_not)
    ultimately show ?thesis using False by (simp add: hd_rev)
  qed
  then have "dropWhile js_space (rev b) = rev b" by (rule dropWhile_self)
  then show ?thesis
    by (simp add: trim_def a_def [symmetric] b_def [symmetric]) (simp add: b_def)
qed

lemma trim_Nil: "trim [] = []"
  by (simp add: trim_def)

subsection \<open>Normalization\<close>









subsection \<open>Normalizing twice\<close>

lemma toUiNote_note_object:
  "toUiNote (note_object n) =
     \<lparr>note_id = note_id n, title = trim (title n), content = content n,
      updatedAt = (if updatedAt n = Some '''' then None else updatedAt n),
      createdAt = (if createdAt n = Some '''' then None else createdAt n)\<rparr>"
  by (cases "updatedAt n"; cases "createdAt n") (simp_all add: toUiNote_def note_object_def)

lemma title_toUiNote_trimmed: "trim (title (toUiNote raw)) = title (toUiNote raw)"
  by (simp add: toUiNote_def Let_def trim_idem trim_Nil)

text \<open>
  Claim C9, as the code has it.  Normalizing a normalized note gives the same id, title
  and content, and the same \<^verbatim>\<open>updatedAt\<close> and \<^verbatim>\<open>createdAt\<close> but for a timestamp that the first
  normalization made the empty string, which the second one drops.  So normalization
  is idempotent on every raw value whose normalized timestamps are not empty strings,
  and a third normalization never changes the result of the second.
\<close>

theorem toUiNote_twice:
  "note_id (toUiNote (note_object (toUiNote raw))) = note_id (toUiNote raw)
   \<and> title (toUiNote (note_object (toUiNote raw))) = title (toUiNote raw)
   \<and> content (toUiNote (note_object (toUiNote raw))) = content (toUiNote raw)
   \<and> updatedAt (toUiNote (note_object (toUiNote raw))) =
       (if updatedAt (toUiNote raw) = Some '''' then None else updatedAt (toUiNote raw))
   \<and> createdAt (toUiNote (note_object (toUiNote raw))) =
       (if createdAt (toUiNote raw) = Some '''' then None else createdAt (toUiNote raw))
   \<and> (updatedAt (toUiNote raw) \<noteq> Some '''' \<and> createdAt (toUiNote raw) \<noteq> Some ''''
        \<longrightarrow> toUiNote (note_object (toUiNote raw)) = toUiNote raw)
   \<and> toUiNote (note_object (toUiNote (note_object (toUiNote raw)))) =
       toUiNote (note_object (toUiNote raw))"
  by (simp add: toUiNote_note_object title_toUiNote_trimmed trim_idem)

theorem toUiNote_twice_witness:
  "updatedAt (toUiNote raw_example) \<noteq> Some '''' \<and> createdAt (toUiNote raw_example) \<noteq> Some ''''
   \<and> toUiNote (note_object (toUiNote raw_example)) = toUiNote raw_example"
  using toUiNote_twice [of raw_example]
  by (simp add: raw_example_def toUiNote_def)

text \<open>
  Idempotence itself fails: the empty array is truthy and prints as the empty string,
  so the first normalization gives the timestamp \<^verbatim>\<open>""\<close> and the second drops it.
\<close>

theorem toUiNote_twice_counterexample:
  "updatedAt (toUiNote raw_array_timestamp) = Some ''''
   \<and> updatedAt (toUiNote (note_object (toUiNote raw_array_timestamp))) = None"
  by (simp add: raw_array_timestamp_def toUiNote_def note_object_def)

subsection \<open>The list answer\<close>







subsection \<open>Failed requests\<close>






end
